theory Spec2Isabelle
  imports Main "HOL-Library.Sublist"
begin

section \<open>The notebook guides/ipynb/keras_nlp/upload.ipynb as a program\<close>

text \<open>
  The notebook is a straight-line Python script: its code cells run top to bottom in one
  namespace. Nearly every statement is a call into a library that the repository does not
  contain (pip, tensorflow_datasets, keras_nlp, kagglehub, huggingface_hub, os). The model
  keeps the script as it is written and takes the libraries as a parameter:
  \<^item> every call that leaves the script is logged, with its arguments, in the order it is made;
  \<^item> what a call answers (a value, or an exception) is given by a record of response
    functions, each reading the whole history of calls made so far, the current one last,
    so that an answer may depend on everything that happened before;
  \<^item> an exception is a value; a statement that raises ends the run, as nothing in the
    notebook catches anything;
  \<^item> \<open>os.environ\<close> is part of the state of the script; only the script writes to it.

  Markdown cells are not run: the \<open>from_preset\<close> calls on a hub URI that the notebook shows
  in fenced blocks are no part of the program. The \<open>!pip\<close> line is a call like the others;
  letting it raise, which IPython does not, only adds runs.
\<close>

subsection \<open>Data\<close>

text \<open>A Python exception: its class name and its message.\<close>

datatype error = Exception string string

definition KeyError :: "string \<Rightarrow> error" where
  "KeyError k = Exception ''KeyError'' k"

text \<open>A model object owned by the library is an opaque handle.\<close>

type_synonym obj = nat

text \<open>
  With \<open>as_supervised=True\<close> and \<open>batch_size=4\<close> an element of the dataset is a pair
  (batch of review texts, batch of labels). A dataset is the sequence of its elements.
\<close>

type_synonym text_batch = "string list"
type_synonym label_batch = "int list"
type_synonym 'a dataset = "'a list"
type_synonym supervised = "(text_batch \<times> label_batch) dataset"

text \<open>What \<open>fit\<close> is given: elements with labels, or texts alone.\<close>

datatype fit_data = Labeled supervised | Texts "text_batch dataset"

datatype task_class = CausalLM | Backbone | Tokenizer | Classifier

text \<open>
  The calls the notebook makes. \<open>TfdsLoad name split as_supervised batch_size\<close>;
  \<open>FromPreset cls preset num_classes\<close> (the keyword argument is given by the classifier
  cell only); \<open>Fit model data\<close>; \<open>SaveToPreset model dir\<close>; \<open>UploadPreset uri dir\<close>.
\<close>

datatype call =
    Shell string
  | Import string
  | TfdsLoad string "string list" bool nat
  | FromPreset task_class string "nat option"
  | Fit obj fit_data
  | SaveToPreset obj string
  | ListDir string
  | KaggleLogin
  | KaggleWhoami
  | HfNotebookLogin
  | HfWhoami
  | UploadPreset string string

text \<open>
  The libraries. Each field answers the call that is last in the history it is given.
  \<open>whoami\<close> of either hub returns a dictionary.
\<close>

record lib =
  shell :: "call list \<Rightarrow> error + unit"
  import_module :: "call list \<Rightarrow> error + unit"
  tfds_load :: "call list \<Rightarrow> error + (supervised \<times> supervised)"
  from_preset :: "call list \<Rightarrow> error + obj"
  fit :: "call list \<Rightarrow> error + unit"
  save_to_preset :: "call list \<Rightarrow> error + unit"
  listdir :: "call list \<Rightarrow> error + string list"
  kaggle_login :: "call list \<Rightarrow> error + unit"
  kaggle_whoami :: "call list \<Rightarrow> error + (string \<rightharpoonup> string)"
  hf_notebook_login :: "call list \<Rightarrow> error + unit"
  hf_whoami :: "call list \<Rightarrow> error + (string \<rightharpoonup> string)"
  upload_preset :: "call list \<Rightarrow> error + unit"

text \<open>The state of the script: \<open>os.environ\<close> and the calls made so far.\<close>

record state =
  environ :: "string \<rightharpoonup> string"
  calls :: "call list"

text \<open>A statement returns the new state and either the exception it raised or its value.\<close>

type_synonym 'a stmt = "state \<Rightarrow> state \<times> (error + 'a)"

definition return_val :: "'a \<Rightarrow> 'a stmt" where
  "return_val a s = (s, Inr a)"

definition raise :: "error \<Rightarrow> 'a stmt" where
  "raise e s = (s, Inl e)"

text \<open>Sequencing: the second statement runs only if the first one raised nothing.\<close>

definition and_then :: "'a stmt \<Rightarrow> ('a \<Rightarrow> 'b stmt) \<Rightarrow> 'b stmt" where
  "and_then m f s = (case m s of (s', Inl e) \<Rightarrow> (s', Inl e) | (s', Inr a) \<Rightarrow> f a s')"

text \<open>A library call: log it, then take the library's answer to the history so far.\<close>

definition extern :: "call \<Rightarrow> (call list \<Rightarrow> error + 'a) \<Rightarrow> 'a stmt" where
  "extern c respond s = (let h = calls s @ [c] in (s\<lparr>calls := h\<rparr>, respond h))"

text \<open>\<open>os.environ[k] = v\<close> and \<open>k not in os.environ\<close>.\<close>

definition environ_set :: "string \<Rightarrow> string \<Rightarrow> unit stmt" where
  "environ_set k v s = (s\<lparr>environ := (environ s)(k \<mapsto> v)\<rparr>, Inr ())"

definition not_in_environ :: "string \<Rightarrow> bool stmt" where
  "not_in_environ k s = (s, Inr (environ s k = None))"

text \<open>\<open>d[k]\<close> on a dictionary raises KeyError when the key is missing.\<close>

definition subscript :: "(string \<rightharpoonup> string) \<Rightarrow> string \<Rightarrow> string stmt" where
  "subscript d k = (case d k of None \<Rightarrow> raise (KeyError k) | Some v \<Rightarrow> return_val v)"

text \<open>
  \<open>Dataset.take(n)\<close> keeps the first \<open>n\<close> elements (all of them when there are fewer) and
  \<open>Dataset.map(f)\<close> applies \<open>f\<close> to every element; both build a new dataset lazily, touch
  nothing outside and raise nothing.
\<close>

definition take_ds :: "nat \<Rightarrow> 'a dataset \<Rightarrow> 'a dataset" where
  "take_ds n ds = take n ds"

definition map_ds :: "('a \<Rightarrow> 'b) \<Rightarrow> 'a dataset \<Rightarrow> 'b dataset" where
  "map_ds f ds = map f ds"

subsection \<open>The code cells\<close>

text \<open>\<^verbatim>\<open>!pip install -q --upgrade keras-nlp huggingface-hub\<close>\<close>

definition cell_install :: "lib \<Rightarrow> unit stmt" where
  "cell_install L = extern (Shell ''pip install -q --upgrade keras-nlp huggingface-hub'') (shell L)"

text \<open>\<^verbatim>\<open>import os; os.environ["KERAS_BACKEND"] = "jax"; import keras_nlp\<close>\<close>

definition cell_setup :: "lib \<Rightarrow> unit stmt" where
  "cell_setup L =
     and_then (extern (Import ''os'') (import_module L)) (\<lambda>_.
     and_then (environ_set ''KERAS_BACKEND'' ''jax'') (\<lambda>_.
     extern (Import ''keras_nlp'') (import_module L)))"

text \<open>
  \<^verbatim>\<open>import tensorflow_datasets as tfds
  imdb_train, imdb_test = tfds.load("imdb_reviews", split=["train", "test"],
                                    as_supervised=True, batch_size=4)\<close>
\<close>

definition cell_data :: "lib \<Rightarrow> (supervised \<times> supervised) stmt" where
  "cell_data L =
     and_then (extern (Import ''tensorflow_datasets'') (import_module L)) (\<lambda>_.
     extern (TfdsLoad ''imdb_reviews'' [''train'', ''test''] True 4) (tfds_load L))"

text \<open>\<^verbatim>\<open>imdb_train = imdb_train.take(100)\<close>\<close>

definition cell_take :: "supervised \<Rightarrow> supervised stmt" where
  "cell_take imdb_train = return_val (take_ds 100 imdb_train)"

text \<open>\<^verbatim>\<open>causal_lm = keras_nlp.models.CausalLM.from_preset("gpt2_base_en")\<close>\<close>

definition cell_load_model :: "lib \<Rightarrow> obj stmt" where
  "cell_load_model L = extern (FromPreset CausalLM ''gpt2_base_en'' None) (from_preset L)"

text \<open>
  \<^verbatim>\<open>imdb_train_reviews = imdb_train.map(lambda x, y: x)
  causal_lm.fit(imdb_train_reviews)\<close>
\<close>

definition cell_fine_tune :: "lib \<Rightarrow> supervised \<Rightarrow> obj \<Rightarrow> (text_batch dataset) stmt" where
  "cell_fine_tune L imdb_train causal_lm =
     (let imdb_train_reviews = map_ds (\<lambda>(x, y). x) imdb_train in
      and_then (extern (Fit causal_lm (Texts imdb_train_reviews)) (fit L)) (\<lambda>_.
      return_val imdb_train_reviews))"

text \<open>\<^verbatim>\<open>preset_dir = "./gpt2_imdb"; causal_lm.save_to_preset(preset_dir)\<close>\<close>

definition cell_save :: "lib \<Rightarrow> obj \<Rightarrow> string stmt" where
  "cell_save L causal_lm =
     (let preset_dir = ''./gpt2_imdb'' in
      and_then (extern (SaveToPreset causal_lm preset_dir) (save_to_preset L)) (\<lambda>_.
      return_val preset_dir))"

text \<open>\<^verbatim>\<open>os.listdir(preset_dir)\<close>\<close>

definition cell_listdir :: "lib \<Rightarrow> string \<Rightarrow> (string list) stmt" where
  "cell_listdir L preset_dir = extern (ListDir preset_dir) (listdir L)"

text \<open>\<^verbatim>\<open>causal_lm = keras_nlp.models.CausalLM.from_preset(preset_dir)\<close>\<close>

definition cell_load_local :: "lib \<Rightarrow> string \<Rightarrow> obj stmt" where
  "cell_load_local L preset_dir = extern (FromPreset CausalLM preset_dir None) (from_preset L)"

text \<open>
  \<^verbatim>\<open>backbone = keras_nlp.models.Backbone.from_preset(preset_dir)
  tokenizer = keras_nlp.models.Tokenizer.from_preset(preset_dir)\<close>
\<close>

definition cell_load_parts :: "lib \<Rightarrow> string \<Rightarrow> (obj \<times> obj) stmt" where
  "cell_load_parts L preset_dir =
     and_then (extern (FromPreset Backbone preset_dir None) (from_preset L)) (\<lambda>backbone.
     and_then (extern (FromPreset Tokenizer preset_dir None) (from_preset L)) (\<lambda>tokenizer.
     return_val (backbone, tokenizer)))"

text \<open>
  \<^verbatim>\<open>import kagglehub
  if "KAGGLE_USERNAME" not in os.environ or "KAGGLE_KEY" not in os.environ:
      kagglehub.login()\<close>
\<close>

definition cell_kaggle_auth :: "lib \<Rightarrow> unit stmt" where
  "cell_kaggle_auth L =
     and_then (extern (Import ''kagglehub'') (import_module L)) (\<lambda>_.
     and_then (not_in_environ ''KAGGLE_USERNAME'') (\<lambda>no_user.
     and_then (not_in_environ ''KAGGLE_KEY'') (\<lambda>no_key.
     if no_user \<or> no_key then extern KaggleLogin (kaggle_login L) else return_val ())))"

text \<open>
  \<^verbatim>\<open>kaggle_username = kagglehub.whoami()["username"]
  kaggle_uri = f"kaggle://{kaggle_username}/gpt2/keras/gpt2_imdb"
  keras_nlp.upload_preset(kaggle_uri, preset_dir)\<close>
\<close>

definition cell_kaggle_upload :: "lib \<Rightarrow> string \<Rightarrow> (string \<times> string) stmt" where
  "cell_kaggle_upload L preset_dir =
     and_then (extern KaggleWhoami (kaggle_whoami L)) (\<lambda>d.
     and_then (subscript d ''username'') (\<lambda>kaggle_username.
     let kaggle_uri = ''kaggle://'' @ kaggle_username @ ''/gpt2/keras/gpt2_imdb'' in
     and_then (extern (UploadPreset kaggle_uri preset_dir) (upload_preset L)) (\<lambda>_.
     return_val (kaggle_username, kaggle_uri))))"

text \<open>
  \<^verbatim>\<open>import huggingface_hub
  if "HF_USERNAME" not in os.environ or "HF_TOKEN" not in os.environ:
      huggingface_hub.notebook_login()\<close>
\<close>

definition cell_hf_auth :: "lib \<Rightarrow> unit stmt" where
  "cell_hf_auth L =
     and_then (extern (Import ''huggingface_hub'') (import_module L)) (\<lambda>_.
     and_then (not_in_environ ''HF_USERNAME'') (\<lambda>no_user.
     and_then (not_in_environ ''HF_TOKEN'') (\<lambda>no_token.
     if no_user \<or> no_token then extern HfNotebookLogin (hf_notebook_login L)
     else return_val ())))"

text \<open>
  \<^verbatim>\<open>hf_username = huggingface_hub.whoami()["name"]
  hf_uri = f"hf://{hf_username}/gpt2_imdb"
  keras_nlp.upload_preset(hf_uri, preset_dir)\<close>
\<close>

definition cell_hf_upload :: "lib \<Rightarrow> string \<Rightarrow> (string \<times> string) stmt" where
  "cell_hf_upload L preset_dir =
     and_then (extern HfWhoami (hf_whoami L)) (\<lambda>d.
     and_then (subscript d ''name'') (\<lambda>hf_username.
     let hf_uri = ''hf://'' @ hf_username @ ''/gpt2_imdb'' in
     and_then (extern (UploadPreset hf_uri preset_dir) (upload_preset L)) (\<lambda>_.
     return_val (hf_username, hf_uri))))"

text \<open>
  \<^verbatim>\<open>classifier = keras_nlp.models.Classifier.from_preset("bert_tiny_en_uncased", num_classes=2)
  classifier.fit(imdb_train)
  preset_dir = "./bert_tiny_imdb"
  classifier.save_to_preset(preset_dir)
  keras_nlp.upload_preset(f"kaggle://{kaggle_username}/bert/keras/bert_tiny_imdb", preset_dir)\<close>
\<close>

definition cell_classifier :: "lib \<Rightarrow> supervised \<Rightarrow> string \<Rightarrow> (obj \<times> string) stmt" where
  "cell_classifier L imdb_train kaggle_username =
     and_then (extern (FromPreset Classifier ''bert_tiny_en_uncased'' (Some 2)) (from_preset L))
       (\<lambda>classifier.
     and_then (extern (Fit classifier (Labeled imdb_train)) (fit L)) (\<lambda>_.
     let preset_dir = ''./bert_tiny_imdb'' in
     and_then (extern (SaveToPreset classifier preset_dir) (save_to_preset L)) (\<lambda>_.
     and_then (extern (UploadPreset (''kaggle://'' @ kaggle_username @ ''/bert/keras/bert_tiny_imdb'')
                  preset_dir) (upload_preset L)) (\<lambda>_.
     return_val (classifier, preset_dir)))))"

subsection \<open>The whole notebook\<close>

text \<open>The namespace of the script when its last cell has run.\<close>

record globals =
  imdb_train :: supervised
  imdb_test :: supervised
  causal_lm :: obj
  imdb_train_reviews :: "text_batch dataset"
  preset_dir :: string
  backbone :: obj
  tokenizer :: obj
  kaggle_username :: string
  kaggle_uri :: string
  hf_username :: string
  hf_uri :: string
  classifier :: obj

definition notebook :: "lib \<Rightarrow> globals stmt" where
  "notebook L =
     and_then (cell_install L) (\<lambda>_.
     and_then (cell_setup L) (\<lambda>_.
     and_then (cell_data L) (\<lambda>(train, test).
     and_then (cell_take train) (\<lambda>train100.
     and_then (cell_load_model L) (\<lambda>lm.
     and_then (cell_fine_tune L train100 lm) (\<lambda>reviews.
     and_then (cell_save L lm) (\<lambda>dir.
     and_then (cell_listdir L dir) (\<lambda>_.
     and_then (cell_load_local L dir) (\<lambda>lm'.
     and_then (cell_load_parts L dir) (\<lambda>(bb, tok).
     and_then (cell_kaggle_auth L) (\<lambda>_.
     and_then (cell_kaggle_upload L dir) (\<lambda>(k_user, k_uri).
     and_then (cell_hf_auth L) (\<lambda>_.
     and_then (cell_hf_upload L dir) (\<lambda>(h_user, h_uri).
     and_then (cell_classifier L train100 k_user) (\<lambda>(clf, dir').
     return_val \<lparr>imdb_train = train100, imdb_test = test, causal_lm = lm',
       imdb_train_reviews = reviews, preset_dir = dir', backbone = bb, tokenizer = tok,
       kaggle_username = k_user, kaggle_uri = k_uri, hf_username = h_user, hf_uri = h_uri,
       classifier = clf\<rparr>)))))))))))))))"

text \<open>A run starts from the environment of the process, with no call made yet.\<close>

definition run :: "lib \<Rightarrow> (string \<rightharpoonup> string) \<Rightarrow> state \<times> (error + globals)" where
  "run L env = notebook L \<lparr>environ = env, calls = []\<rparr>"

definition trace :: "lib \<Rightarrow> (string \<rightharpoonup> string) \<Rightarrow> call list" where
  "trace L env = calls (fst (run L env))"

definition outcome :: "lib \<Rightarrow> (string \<rightharpoonup> string) \<Rightarrow> error + globals" where
  "outcome L env = snd (run L env)"


section \<open>Reading a run\<close>

subsection \<open>What the library answered\<close>

definition exn :: "error + 'a \<Rightarrow> error option" where
  "exn r = (case r of Inl e \<Rightarrow> Some e | Inr _ \<Rightarrow> None)"

text \<open>
  The exception, if any, with which the library answered the last call of a history. Each
  kind of call is answered by the field of \<^typ>\<open>lib\<close> that the notebook calls it through.
\<close>

definition raised :: "lib \<Rightarrow> call list \<Rightarrow> error option" where
  "raised L h =
     (if h = [] then None
      else case last h of
          Shell _ \<Rightarrow> exn (shell L h)
        | Import _ \<Rightarrow> exn (import_module L h)
        | TfdsLoad _ _ _ _ \<Rightarrow> exn (tfds_load L h)
        | FromPreset _ _ _ \<Rightarrow> exn (from_preset L h)
        | Fit _ _ \<Rightarrow> exn (fit L h)
        | SaveToPreset _ _ \<Rightarrow> exn (save_to_preset L h)
        | ListDir _ \<Rightarrow> exn (listdir L h)
        | KaggleLogin \<Rightarrow> exn (kaggle_login L h)
        | KaggleWhoami \<Rightarrow> exn (kaggle_whoami L h)
        | HfNotebookLogin \<Rightarrow> exn (hf_notebook_login L h)
        | HfWhoami \<Rightarrow> exn (hf_whoami L h)
        | UploadPreset _ _ \<Rightarrow> exn (upload_preset L h))"

text \<open>Every call of the history was answered without an exception.\<close>

definition clean :: "lib \<Rightarrow> call list \<Rightarrow> bool" where
  "clean L h = list_all (\<lambda>p. raised L p = None) (prefixes h)"

text \<open>
  The one exception that is not a library's: the last call was a \<open>whoami\<close>, it returned a
  dictionary, and the key the notebook subscripts it with is missing.
\<close>

definition missing_key :: "lib \<Rightarrow> call list \<Rightarrow> error \<Rightarrow> bool" where
  "missing_key L h e =
     (h \<noteq> [] \<and>
      (case last h of
         KaggleWhoami \<Rightarrow>
           (case kaggle_whoami L h of
              Inr d \<Rightarrow> d ''username'' = None \<and> e = KeyError ''username''
            | Inl _ \<Rightarrow> False)
       | HfWhoami \<Rightarrow>
           (case hf_whoami L h of
              Inr d \<Rightarrow> d ''name'' = None \<and> e = KeyError ''name''
            | Inl _ \<Rightarrow> False)
       | _ \<Rightarrow> False))"

text \<open>
  A history and a result fit together when every call but the last was answered without an
  exception and the result is what the last answer makes it: a value if the last call was
  answered too, and otherwise the exception of the last call itself, or the KeyError of the
  subscript on its answer.
\<close>

definition faithful :: "lib \<Rightarrow> call list \<Rightarrow> error + 'a \<Rightarrow> bool" where
  "faithful L h r =
     (case r of
        Inr a \<Rightarrow> clean L h
      | Inl e \<Rightarrow>
          clean L (butlast h) \<and>
          (raised L h = Some e \<or> raised L h = None \<and> missing_key L h e))"

definition propagates :: "lib \<Rightarrow> 'a stmt \<Rightarrow> bool" where
  "propagates L m \<longleftrightarrow>
     (\<forall>s. clean L (calls s) \<longrightarrow> faithful L (calls (fst (m s))) (snd (m s)))"

subsection \<open>Projections of a history\<close>

text \<open>The history up to and including the first occurrence of a call.\<close>

definition history_upto :: "call \<Rightarrow> call list \<Rightarrow> call list" where
  "history_upto c h = takeWhile (\<lambda>x. x \<noteq> c) h @ [c]"

text \<open>The \<open>fit\<close> calls (model, data) and the \<open>upload_preset\<close> calls (uri, directory), in order.\<close>

fun fits :: "call list \<Rightarrow> (obj \<times> fit_data) list" where
  "fits [] = []"
| "fits (Fit m d # cs) = (m, d) # fits cs"
| "fits (_ # cs) = fits cs"

fun uploads :: "call list \<Rightarrow> (string \<times> string) list" where
  "uploads [] = []"
| "uploads (UploadPreset u d # cs) = (u, d) # uploads cs"
| "uploads (_ # cs) = uploads cs"




text \<open>
  The two hubs. The notebook's text: to upload to Kaggle the URI must start with
  \<open>kaggle://\<close>, to upload to Hugging Face with \<open>hf://\<close>.
\<close>

datatype hub = Kaggle | HuggingFace

definition uri_hub :: "string \<Rightarrow> hub option" where
  "uri_hub uri =
     (if prefix ''kaggle://'' uri then Some Kaggle
      else if prefix ''hf://'' uri then Some HuggingFace
      else None)"








subsection \<open>Runs that stop early\<close>

text \<open>
  To compare a run that stops at an exception with one that goes on, a library is completed
  into one that never raises: it answers as the given library wherever that one returns,
  and with some value wherever it raises; the dictionary of a \<open>whoami\<close> is given the key
  the notebook reads if it lacks it.
\<close>

definition or_else :: "error + 'a \<Rightarrow> 'a \<Rightarrow> error + 'a" where
  "or_else r d = (case r of Inl e \<Rightarrow> Inr d | Inr a \<Rightarrow> Inr a)"

definition with_key ::
  "string \<Rightarrow> error + (string \<rightharpoonup> string) \<Rightarrow> error + (string \<rightharpoonup> string)" where
  "with_key k r =
     (case r of
        Inl e \<Rightarrow> Inr [k \<mapsto> []]
      | Inr d \<Rightarrow> (case d k of None \<Rightarrow> Inr (d(k \<mapsto> [])) | Some v \<Rightarrow> Inr d))"

definition never_failing :: "lib \<Rightarrow> lib" where
  "never_failing L =
     \<lparr>shell = (\<lambda>h. or_else (shell L h) ()),
      import_module = (\<lambda>h. or_else (import_module L h) ()),
      tfds_load = (\<lambda>h. or_else (tfds_load L h) ([], [])),
      from_preset = (\<lambda>h. or_else (from_preset L h) 0),
      fit = (\<lambda>h. or_else (fit L h) ()),
      save_to_preset = (\<lambda>h. or_else (save_to_preset L h) ()),
      listdir = (\<lambda>h. or_else (listdir L h) []),
      kaggle_login = (\<lambda>h. or_else (kaggle_login L h) ()),
      kaggle_whoami = (\<lambda>h. with_key ''username'' (kaggle_whoami L h)),
      hf_notebook_login = (\<lambda>h. or_else (hf_notebook_login L h) ()),
      hf_whoami = (\<lambda>h. with_key ''name'' (hf_whoami L h)),
      upload_preset = (\<lambda>h. or_else (upload_preset L h) ())\<rparr>"

text \<open>A statement only ever adds calls; a statement always returns.\<close>

definition grows :: "'a stmt \<Rightarrow> bool" where
  "grows m \<longleftrightarrow> (\<forall>s. prefix (calls s) (calls (fst (m s))))"

definition succeeds :: "'a stmt \<Rightarrow> bool" where
  "succeeds m \<longleftrightarrow> (\<forall>s. \<exists>a. snd (m s) = Inr a)"

text \<open>
  The second statement does what the first does wherever the first returns, and where the
  first raises the second has made at least the calls of the first.
\<close>

definition follows :: "'a stmt \<Rightarrow> 'a stmt \<Rightarrow> bool" where
  "follows m m' \<longleftrightarrow>
     (\<forall>s. case snd (m s) of
            Inr a \<Rightarrow> m' s = m s
          | Inl e \<Rightarrow> prefix (calls (fst (m s))) (calls (fst (m' s))))"

subsection \<open>The calls of a complete run\<close>

text \<open>
  The calls of a run that reaches the end of the notebook, given the environment it started
  in, the handle of the model loaded from the built-in preset, and the final namespace.
\<close>

definition complete_calls :: "(string \<rightharpoonup> string) \<Rightarrow> obj \<Rightarrow> globals \<Rightarrow> call list" where
  "complete_calls env lm g =
     [Shell ''pip install -q --upgrade keras-nlp huggingface-hub'',
      Import ''os'',
      Import ''keras_nlp'',
      Import ''tensorflow_datasets'',
      TfdsLoad ''imdb_reviews'' [''train'', ''test''] True 4,
      FromPreset CausalLM ''gpt2_base_en'' None,
      Fit lm (Texts (imdb_train_reviews g)),
      SaveToPreset lm ''./gpt2_imdb'',
      ListDir ''./gpt2_imdb'',
      FromPreset CausalLM ''./gpt2_imdb'' None,
      FromPreset Backbone ''./gpt2_imdb'' None,
      FromPreset Tokenizer ''./gpt2_imdb'' None,
      Import ''kagglehub'']
     @ (if env ''KAGGLE_USERNAME'' = None \<or> env ''KAGGLE_KEY'' = None then [KaggleLogin] else [])
     @ [KaggleWhoami,
        UploadPreset (kaggle_uri g) ''./gpt2_imdb'',
        Import ''huggingface_hub'']
     @ (if env ''HF_USERNAME'' = None \<or> env ''HF_TOKEN'' = None then [HfNotebookLogin] else [])
     @ [HfWhoami,
        UploadPreset (hf_uri g) ''./gpt2_imdb'',
        FromPreset Classifier ''bert_tiny_en_uncased'' (Some 2),
        Fit (classifier g) (Labeled (imdb_train g)),
        SaveToPreset (classifier g) ''./bert_tiny_imdb'',
        UploadPreset (''kaggle://'' @ kaggle_username g @ ''/bert/keras/bert_tiny_imdb'')
          ''./bert_tiny_imdb'']"

text \<open>
  The calls up to the load of the dataset, and up to the load of the causal language model:
  the same in every run that gets there.
\<close>

definition load_history :: "call list" where
  "load_history =
     [Shell ''pip install -q --upgrade keras-nlp huggingface-hub'',
      Import ''os'',
      Import ''keras_nlp'',
      Import ''tensorflow_datasets'',
      TfdsLoad ''imdb_reviews'' [''train'', ''test''] True 4]"

definition model_history :: "call list" where
  "model_history = load_history @ [FromPreset CausalLM ''gpt2_base_en'' None]"

subsection \<open>Concrete libraries\<close>

text \<open>
  A library in which every call succeeds: 120 batches of training data, a fresh handle for
  every model, user \<open>alice\<close> on Kaggle and \<open>bob\<close> on Hugging Face. The same library with
  the hubs out of reach: every upload raises. And the same library with a training split
  of 3 batches only.
\<close>

definition demo_batch :: "text_batch \<times> label_batch" where
  "demo_batch = ([''great'', ''dull'', ''fine'', ''awful''], [1, 0, 1, 0])"

definition demo_lib :: lib where
  "demo_lib =
     \<lparr>shell = (\<lambda>h. Inr ()),
      import_module = (\<lambda>h. Inr ()),
      tfds_load = (\<lambda>h. Inr (replicate 120 demo_batch, replicate 3 demo_batch)),
      from_preset = (\<lambda>h. Inr (length h)),
      fit = (\<lambda>h. Inr ()),
      save_to_preset = (\<lambda>h. Inr ()),
      listdir = (\<lambda>h. Inr [''config.json'', ''model.weights.h5'']),
      kaggle_login = (\<lambda>h. Inr ()),
      kaggle_whoami = (\<lambda>h. Inr [''username'' \<mapsto> ''alice'']),
      hf_notebook_login = (\<lambda>h. Inr ()),
      hf_whoami = (\<lambda>h. Inr [''name'' \<mapsto> ''bob'']),
      upload_preset = (\<lambda>h. Inr ())\<rparr>"

definition offline_lib :: lib where
  "offline_lib = demo_lib\<lparr>upload_preset := (\<lambda>h. Inl (Exception ''ConnectionError'' ''offline''))\<rparr>"



definition demo_globals :: globals where
  "demo_globals =
     \<lparr>imdb_train = replicate 100 demo_batch,
      imdb_test = replicate 3 demo_batch,
      causal_lm = 10,
      imdb_train_reviews = replicate 100 (fst demo_batch),
      preset_dir = ''./bert_tiny_imdb'',
      backbone = 11,
      tokenizer = 12,
      kaggle_username = ''alice'',
      kaggle_uri = ''kaggle://alice/gpt2/keras/gpt2_imdb'',
      hf_username = ''bob'',
      hf_uri = ''hf://bob/gpt2_imdb'',
      classifier = 21\<rparr>"



section \<open>Statements and cells\<close>

lemmas stmt_defs = return_val_def raise_def and_then_def extern_def environ_set_def
  not_in_environ_def subscript_def take_ds_def map_ds_def

lemmas cell_defs = cell_install_def cell_setup_def cell_data_def cell_take_def cell_load_model_def
  cell_fine_tune_def cell_save_def cell_listdir_def cell_load_local_def cell_load_parts_def
  cell_kaggle_auth_def cell_kaggle_upload_def cell_hf_auth_def cell_hf_upload_def
  cell_classifier_def

lemma and_then_Inr_iff:
  "and_then m f s = (s', Inr b) \<longleftrightarrow> (\<exists>s1 a. m s = (s1, Inr a) \<and> f a s1 = (s', Inr b))"
  unfolding and_then_def by (auto split: prod.splits sum.splits)

lemma extern_Inr:
  "extern c r s = (s', Inr a) \<longleftrightarrow> s' = s\<lparr>calls := calls s @ [c]\<rparr> \<and> r (calls s @ [c]) = Inr a"
  unfolding extern_def by (auto simp: Let_def)

subsection \<open>What a cell that returns has done\<close>

lemma cell_install_Inr:
  "cell_install L s = (s', Inr u) \<Longrightarrow>
     environ s' = environ s \<and>
     calls s' = calls s @ [Shell ''pip install -q --upgrade keras-nlp huggingface-hub'']"
  unfolding cell_install_def by (auto simp: extern_Inr)

lemma cell_setup_Inr:
  "cell_setup L s = (s', Inr u) \<Longrightarrow>
     environ s' = (environ s)(''KERAS_BACKEND'' \<mapsto> ''jax'') \<and>
     calls s' = calls s @ [Import ''os'', Import ''keras_nlp'']"
  unfolding cell_setup_def stmt_defs by (auto simp: Let_def split: sum.splits)

lemma cell_data_Inr:
  "cell_data L s = (s', Inr (train, test)) \<Longrightarrow>
     environ s' = environ s \<and>
     calls s' = calls s @ [Import ''tensorflow_datasets'',
                           TfdsLoad ''imdb_reviews'' [''train'', ''test''] True 4] \<and>
     tfds_load L (calls s') = Inr (train, test)"
  unfolding cell_data_def stmt_defs by (auto simp: Let_def split: sum.splits)

lemma cell_take_Inr:
  "cell_take train s = (s', Inr t) \<Longrightarrow> s' = s \<and> t = take 100 train"
  unfolding cell_take_def stmt_defs by auto

lemma cell_load_model_Inr:
  "cell_load_model L s = (s', Inr lm) \<Longrightarrow>
     environ s' = environ s \<and>
     calls s' = calls s @ [FromPreset CausalLM ''gpt2_base_en'' None] \<and>
     from_preset L (calls s') = Inr lm"
  unfolding cell_load_model_def by (auto simp: extern_Inr)

lemma cell_fine_tune_Inr:
  "cell_fine_tune L tr lm s = (s', Inr rv) \<Longrightarrow>
     environ s' = environ s \<and> rv = map fst tr \<and>
     calls s' = calls s @ [Fit lm (Texts (map fst tr))]"
  unfolding cell_fine_tune_def stmt_defs
  by (auto simp: Let_def case_prod_beta fst_def[symmetric] split: sum.splits)

lemma cell_save_Inr:
  "cell_save L lm s = (s', Inr dir) \<Longrightarrow>
     environ s' = environ s \<and> dir = ''./gpt2_imdb'' \<and>
     calls s' = calls s @ [SaveToPreset lm ''./gpt2_imdb'']"
  unfolding cell_save_def stmt_defs by (auto simp: Let_def split: sum.splits)

lemma cell_listdir_Inr:
  "cell_listdir L dir s = (s', Inr files) \<Longrightarrow>
     environ s' = environ s \<and> calls s' = calls s @ [ListDir dir]"
  unfolding cell_listdir_def by (auto simp: extern_Inr)

lemma cell_load_local_Inr:
  "cell_load_local L dir s = (s', Inr lm) \<Longrightarrow>
     environ s' = environ s \<and> calls s' = calls s @ [FromPreset CausalLM dir None]"
  unfolding cell_load_local_def by (auto simp: extern_Inr)

lemma cell_load_parts_Inr:
  "cell_load_parts L dir s = (s', Inr parts) \<Longrightarrow>
     environ s' = environ s \<and>
     calls s' = calls s @ [FromPreset Backbone dir None, FromPreset Tokenizer dir None]"
  unfolding cell_load_parts_def stmt_defs by (auto simp: Let_def split: sum.splits)

lemma cell_kaggle_auth_Inr:
  "cell_kaggle_auth L s = (s', Inr u) \<Longrightarrow>
     environ s' = environ s \<and>
     calls s' = calls s @ Import ''kagglehub'' #
       (if environ s ''KAGGLE_USERNAME'' = None \<or> environ s ''KAGGLE_KEY'' = None
        then [KaggleLogin] else [])"
  unfolding cell_kaggle_auth_def stmt_defs
  by (auto simp: Let_def split: sum.splits if_splits)

lemma cell_kaggle_upload_Inr:
  "cell_kaggle_upload L dir s = (s', Inr (user, uri)) \<Longrightarrow>
     environ s' = environ s \<and>
     uri = ''kaggle://'' @ user @ ''/gpt2/keras/gpt2_imdb'' \<and>
     calls s' = calls s @ [KaggleWhoami, UploadPreset uri dir] \<and>
     (\<exists>d. kaggle_whoami L (calls s @ [KaggleWhoami]) = Inr d \<and> d ''username'' = Some user)"
  unfolding cell_kaggle_upload_def stmt_defs
  by (auto simp: Let_def split: sum.splits option.splits)

lemma cell_hf_auth_Inr:
  "cell_hf_auth L s = (s', Inr u) \<Longrightarrow>
     environ s' = environ s \<and>
     calls s' = calls s @ Import ''huggingface_hub'' #
       (if environ s ''HF_USERNAME'' = None \<or> environ s ''HF_TOKEN'' = None
        then [HfNotebookLogin] else [])"
  unfolding cell_hf_auth_def stmt_defs
  by (auto simp: Let_def split: sum.splits if_splits)

lemma cell_hf_upload_Inr:
  "cell_hf_upload L dir s = (s', Inr (user, uri)) \<Longrightarrow>
     environ s' = environ s \<and>
     uri = ''hf://'' @ user @ ''/gpt2_imdb'' \<and>
     calls s' = calls s @ [HfWhoami, UploadPreset uri dir] \<and>
     (\<exists>d. hf_whoami L (calls s @ [HfWhoami]) = Inr d \<and> d ''name'' = Some user)"
  unfolding cell_hf_upload_def stmt_defs
  by (auto simp: Let_def split: sum.splits option.splits)

lemma cell_classifier_Inr:
  "cell_classifier L tr user s = (s', Inr (clf, dir)) \<Longrightarrow>
     environ s' = environ s \<and> dir = ''./bert_tiny_imdb'' \<and>
     calls s' = calls s @
       [FromPreset Classifier ''bert_tiny_en_uncased'' (Some 2),
        Fit clf (Labeled tr),
        SaveToPreset clf ''./bert_tiny_imdb'',
        UploadPreset (''kaggle://'' @ user @ ''/bert/keras/bert_tiny_imdb'') ''./bert_tiny_imdb''] \<and>
     from_preset L (calls s @ [FromPreset Classifier ''bert_tiny_en_uncased'' (Some 2)]) = Inr clf"
  unfolding cell_classifier_def stmt_defs
  by (auto simp: Let_def split: sum.splits)

subsection \<open>What a run that reaches the end has done\<close>

text \<open>Every cell returned, each starting in the state the one before left.\<close>

lemma notebook_InrE:
  assumes "notebook L s0 = (s, Inr g)"
  obtains s1 s2 s3 s4 s5 s6 s7 s8 s9 s10 s11 s12 s13 s14
    train test train100 lm reviews dir files lm' bb tok k_user k_uri h_user h_uri clf dir'
  where
    "cell_install L s0 = (s1, Inr ())"
    "cell_setup L s1 = (s2, Inr ())"
    "cell_data L s2 = (s3, Inr (train, test))"
    "cell_take train s3 = (s4, Inr train100)"
    "cell_load_model L s4 = (s5, Inr lm)"
    "cell_fine_tune L train100 lm s5 = (s6, Inr reviews)"
    "cell_save L lm s6 = (s7, Inr dir)"
    "cell_listdir L dir s7 = (s8, Inr files)"
    "cell_load_local L dir s8 = (s9, Inr lm')"
    "cell_load_parts L dir s9 = (s10, Inr (bb, tok))"
    "cell_kaggle_auth L s10 = (s11, Inr ())"
    "cell_kaggle_upload L dir s11 = (s12, Inr (k_user, k_uri))"
    "cell_hf_auth L s12 = (s13, Inr ())"
    "cell_hf_upload L dir s13 = (s14, Inr (h_user, h_uri))"
    "cell_classifier L train100 k_user s14 = (s, Inr (clf, dir'))"
    "g = \<lparr>imdb_train = train100, imdb_test = test, causal_lm = lm',
       imdb_train_reviews = reviews, preset_dir = dir', backbone = bb, tokenizer = tok,
       kaggle_username = k_user, kaggle_uri = k_uri, hf_username = h_user, hf_uri = h_uri,
       classifier = clf\<rparr>"
  using assms unfolding notebook_def
  by (auto simp: and_then_Inr_iff return_val_def)

lemma complete_run:
  assumes "outcome L env = Inr g"
  shows "\<exists>train lm kd hd.
           trace L env = complete_calls env lm g \<and>
           tfds_load L (take 5 (trace L env)) = Inr (train, imdb_test g) \<and>
           from_preset L (take 6 (trace L env)) = Inr lm \<and>
           from_preset L (history_upto (FromPreset Classifier ''bert_tiny_en_uncased'' (Some 2))
                            (trace L env)) = Inr (classifier g) \<and>
           imdb_train g = take 100 train \<and>
           imdb_train_reviews g = map fst (take 100 train) \<and>
           preset_dir g = ''./bert_tiny_imdb'' \<and>
           kaggle_whoami L (history_upto KaggleWhoami (trace L env)) = Inr kd \<and>
           kd ''username'' = Some (kaggle_username g) \<and>
           kaggle_uri g = ''kaggle://'' @ kaggle_username g @ ''/gpt2/keras/gpt2_imdb'' \<and>
           hf_whoami L (history_upto HfWhoami (trace L env)) = Inr hd \<and>
           hd ''name'' = Some (hf_username g) \<and>
           hf_uri g = ''hf://'' @ hf_username g @ ''/gpt2_imdb''"
proof -
  define s0 where "s0 = \<lparr>environ = env, calls = []\<rparr>"
  obtain s where run: "notebook L s0 = (s, Inr g)"
    using assms unfolding outcome_def run_def s0_def
    by (cases "notebook L \<lparr>environ = env, calls = []\<rparr>") auto
  have tr: "trace L env = calls s"
    using run unfolding trace_def run_def s0_def by simp
  from run obtain s1 s2 s3 s4 s5 s6 s7 s8 s9 s10 s11 s12 s13 s14
    train test train100 lm reviews dir files lm' bb tok k_user k_uri h_user h_uri clf dir'
    where c1: "cell_install L s0 = (s1, Inr ())"
      and c2: "cell_setup L s1 = (s2, Inr ())"
      and c3: "cell_data L s2 = (s3, Inr (train, test))"
      and c4: "cell_take train s3 = (s4, Inr train100)"
      and c5: "cell_load_model L s4 = (s5, Inr lm)"
      and c6: "cell_fine_tune L train100 lm s5 = (s6, Inr reviews)"
      and c7: "cell_save L lm s6 = (s7, Inr dir)"
      and c8: "cell_listdir L dir s7 = (s8, Inr files)"
      and c9: "cell_load_local L dir s8 = (s9, Inr lm')"
      and c10: "cell_load_parts L dir s9 = (s10, Inr (bb, tok))"
      and c11: "cell_kaggle_auth L s10 = (s11, Inr ())"
      and c12: "cell_kaggle_upload L dir s11 = (s12, Inr (k_user, k_uri))"
      and c13: "cell_hf_auth L s12 = (s13, Inr ())"
      and c14: "cell_hf_upload L dir s13 = (s14, Inr (h_user, h_uri))"
      and c15: "cell_classifier L train100 k_user s14 = (s, Inr (clf, dir'))"
      and g: "g = \<lparr>imdb_train = train100, imdb_test = test, causal_lm = lm',
         imdb_train_reviews = reviews, preset_dir = dir', backbone = bb, tokenizer = tok,
         kaggle_username = k_user, kaggle_uri = k_uri, hf_username = h_user, hf_uri = h_uri,
         classifier = clf\<rparr>"
    by (rule notebook_InrE)
  note k1 = cell_install_Inr[OF c1] and k2 = cell_setup_Inr[OF c2] and k3 = cell_data_Inr[OF c3]
    and k4 = cell_take_Inr[OF c4] and k5 = cell_load_model_Inr[OF c5]
    and k6 = cell_fine_tune_Inr[OF c6] and k7 = cell_save_Inr[OF c7]
    and k8 = cell_listdir_Inr[OF c8] and k9 = cell_load_local_Inr[OF c9]
    and k10 = cell_load_parts_Inr[OF c10] and k11 = cell_kaggle_auth_Inr[OF c11]
    and k12 = cell_kaggle_upload_Inr[OF c12] and k13 = cell_hf_auth_Inr[OF c13]
    and k14 = cell_hf_upload_Inr[OF c14] and k15 = cell_classifier_Inr[OF c15]
  have dir: "dir = ''./gpt2_imdb''" and dir': "dir' = ''./bert_tiny_imdb''"
    and t100: "train100 = take 100 train" and rv: "reviews = map fst (take 100 train)"
    and s4: "s4 = s3"
    and kuri: "k_uri = ''kaggle://'' @ k_user @ ''/gpt2/keras/gpt2_imdb''"
    and huri: "h_uri = ''hf://'' @ h_user @ ''/gpt2_imdb''"
    using k4 k6 k7 k12 k14 k15 by simp_all
  have e10: "environ s10 = env(''KERAS_BACKEND'' \<mapsto> ''jax'')"
    using k1 k2 k3 k5 k6 k7 k8 k9 k10 by (simp add: s0_def s4)
  then have e12: "environ s12 = env(''KERAS_BACKEND'' \<mapsto> ''jax'')"
    using k11 k12 by simp
  have h3: "calls s3 = [Shell ''pip install -q --upgrade keras-nlp huggingface-hub'',
      Import ''os'', Import ''keras_nlp'', Import ''tensorflow_datasets'',
      TfdsLoad ''imdb_reviews'' [''train'', ''test''] True 4]"
    using k1 k2 k3 by (simp add: s0_def)
  have h5: "calls s5 = calls s3 @ [FromPreset CausalLM ''gpt2_base_en'' None]"
    using k5 by (simp add: s4)
  have h10: "calls s10 = calls s5 @
      [Fit lm (Texts reviews), SaveToPreset lm dir, ListDir dir,
       FromPreset CausalLM dir None, FromPreset Backbone dir None,
       FromPreset Tokenizer dir None]"
    using k6 k7 k8 k9 k10 by (simp add: rv t100 dir)
  have h11: "calls s11 = calls s10 @ Import ''kagglehub'' #
      (if env ''KAGGLE_USERNAME'' = None \<or> env ''KAGGLE_KEY'' = None then [KaggleLogin] else [])"
    using k11 by (simp add: e10)
  have h12: "calls s12 = calls s11 @ [KaggleWhoami, UploadPreset k_uri dir]"
    using k12 by simp
  have h13: "calls s13 = calls s12 @ Import ''huggingface_hub'' #
      (if env ''HF_USERNAME'' = None \<or> env ''HF_TOKEN'' = None then [HfNotebookLogin] else [])"
    using k13 by (simp add: e12)
  have h14: "calls s14 = calls s13 @ [HfWhoami, UploadPreset h_uri dir]"
    using k14 by simp
  have h15: "calls s = calls s14 @
       [FromPreset Classifier ''bert_tiny_en_uncased'' (Some 2),
        Fit clf (Labeled train100),
        SaveToPreset clf ''./bert_tiny_imdb'',
        UploadPreset (''kaggle://'' @ k_user @ ''/bert/keras/bert_tiny_imdb'') ''./bert_tiny_imdb'']"
    using k15 by simp
  have all: "calls s = complete_calls env lm g"
    unfolding h15 h14 h13 h12 h11 h10 h5 h3
    by (simp add: complete_calls_def g dir)
  have p5: "take 5 (calls s) = calls s3"
    unfolding all h3 by (simp add: complete_calls_def)
  have p6: "take 6 (calls s) = calls s5"
    unfolding all h5 h3 by (simp add: complete_calls_def)
  have pk: "history_upto KaggleWhoami (calls s) = calls s11 @ [KaggleWhoami]"
    unfolding h15 h14 h13 h12 h11 h10 h5 h3 by (simp add: history_upto_def)
  have ph: "history_upto HfWhoami (calls s) = calls s13 @ [HfWhoami]"
    unfolding h15 h14 h13 h12 h11 h10 h5 h3 by (simp add: history_upto_def)
  have pc: "history_upto (FromPreset Classifier ''bert_tiny_en_uncased'' (Some 2)) (calls s) =
              calls s14 @ [FromPreset Classifier ''bert_tiny_en_uncased'' (Some 2)]"
    unfolding h15 h14 h13 h12 h11 h10 h5 h3 by (simp add: history_upto_def)
  have ld: "tfds_load L (calls s3) = Inr (train, test)"
    using k3 by blast
  have fl: "from_preset L (calls s5) = Inr lm"
    using k5 by blast
  have fc: "from_preset L (calls s14 @ [FromPreset Classifier ''bert_tiny_en_uncased'' (Some 2)]) =
              Inr clf"
    using k15 by blast
  from k12 obtain kd where kd: "kaggle_whoami L (calls s11 @ [KaggleWhoami]) = Inr kd"
    "kd ''username'' = Some k_user" by blast
  from k14 obtain hd where hd: "hf_whoami L (calls s13 @ [HfWhoami]) = Inr hd"
    "hd ''name'' = Some h_user" by blast
  have "calls s = complete_calls env lm g \<and>
        tfds_load L (take 5 (calls s)) = Inr (train, imdb_test g) \<and>
        from_preset L (take 6 (calls s)) = Inr lm \<and>
        from_preset L (history_upto (FromPreset Classifier ''bert_tiny_en_uncased'' (Some 2))
                         (calls s)) = Inr (classifier g) \<and>
        imdb_train g = take 100 train \<and>
        imdb_train_reviews g = map fst (take 100 train) \<and>
        preset_dir g = ''./bert_tiny_imdb'' \<and>
        kaggle_whoami L (history_upto KaggleWhoami (calls s)) = Inr kd \<and>
        kd ''username'' = Some (kaggle_username g) \<and>
        kaggle_uri g = ''kaggle://'' @ kaggle_username g @ ''/gpt2/keras/gpt2_imdb'' \<and>
        hf_whoami L (history_upto HfWhoami (calls s)) = Inr hd \<and>
        hd ''name'' = Some (hf_username g) \<and>
        hf_uri g = ''hf://'' @ hf_username g @ ''/gpt2_imdb''"
    unfolding p5 p6 pk ph pc
    using all ld fl fc kd hd
    by (simp add: g t100 rv dir' kuri huri)
  then show ?thesis unfolding tr by blast
qed

subsection \<open>Projections of the calls of a complete run\<close>

lemma fits_complete_calls:
  "fits (complete_calls env lm g) =
     [(lm, Texts (imdb_train_reviews g)), (classifier g, Labeled (imdb_train g))]"
  by (simp add: complete_calls_def)

lemma uploads_complete_calls:
  "uploads (complete_calls env lm g) =
     [(kaggle_uri g, ''./gpt2_imdb''),
      (hf_uri g, ''./gpt2_imdb''),
      (''kaggle://'' @ kaggle_username g @ ''/bert/keras/bert_tiny_imdb'', ''./bert_tiny_imdb'')]"
  by (simp add: complete_calls_def)



lemma history_upto_load:
  "history_upto (TfdsLoad ''imdb_reviews'' [''train'', ''test''] True 4) (complete_calls env lm g) =
     take 5 (complete_calls env lm g)"
  by (simp add: complete_calls_def history_upto_def)




subsection \<open>Exceptions\<close>

lemma clean_Nil: "clean L []"
  by (simp add: clean_def raised_def)

lemma clean_snoc: "clean L (h @ [c]) \<longleftrightarrow> clean L h \<and> raised L (h @ [c]) = None"
  by (simp add: clean_def)

lemma clean_snoc2:
  "clean L (h @ [a, b]) \<longleftrightarrow> clean L (h @ [a]) \<and> raised L (h @ [a, b]) = None"
  using clean_snoc[of L "h @ [a]" b] by simp

lemma clean_butlast: "clean L h \<Longrightarrow> clean L (butlast h)"
  by (cases h rule: rev_cases) (simp_all add: clean_snoc)

lemma clean_last: "clean L h \<Longrightarrow> raised L h = None"
  by (cases h rule: rev_cases) (simp_all add: clean_snoc raised_def)

lemma propagates_return: "propagates L (return_val a)"
  by (simp add: propagates_def faithful_def return_val_def)

lemma propagates_and_then:
  assumes "propagates L m" and "\<And>a. propagates L (f a)"
  shows "propagates L (and_then m f)"
  unfolding propagates_def
proof (intro allI impI)
  fix s :: state
  assume s: "clean L (calls s)"
  obtain s1 r where ms: "m s = (s1, r)" by (cases "m s")
  from assms(1) s ms have m: "faithful L (calls s1) r"
    unfolding propagates_def by fastforce
  show "faithful L (calls (fst (and_then m f s))) (snd (and_then m f s))"
  proof (cases r)
    case (Inl e)
    with m ms show ?thesis
      by (simp add: and_then_def faithful_def)
  next
    case (Inr a)
    with m have "clean L (calls s1)"
      by (simp add: faithful_def)
    with assms(2)[of a] have "faithful L (calls (fst (f a s1))) (snd (f a s1))"
      unfolding propagates_def by blast
    with ms Inr show ?thesis by (simp add: and_then_def)
  qed
qed

lemma propagates_extern:
  assumes "\<And>h. raised L (h @ [c]) = exn (respond (h @ [c]))"
  shows "propagates L (extern c respond)"
  unfolding propagates_def extern_def faithful_def
  by (auto simp: Let_def clean_snoc assms exn_def split: sum.splits)

lemma propagates_environ_set: "propagates L (environ_set k v)"
  by (simp add: propagates_def faithful_def environ_set_def)

lemma propagates_not_in_environ: "propagates L (not_in_environ k)"
  by (simp add: propagates_def faithful_def not_in_environ_def)

lemma propagates_case_prod:
  assumes "\<And>a b. propagates L (f a b)"
  shows "propagates L (case p of (a, b) \<Rightarrow> f a b)"
  using assms by (cases p) simp

lemma propagates_if:
  assumes "propagates L m" and "propagates L n"
  shows "propagates L (if b then m else n)"
  using assms by simp

lemmas propagates_intros = propagates_and_then propagates_return propagates_extern
  propagates_environ_set propagates_not_in_environ propagates_case_prod propagates_if

text \<open>The two cells that subscript the answer of \<open>whoami\<close>.\<close>

lemma propagates_kaggle_upload: "propagates L (cell_kaggle_upload L dir)"
  unfolding propagates_def cell_kaggle_upload_def stmt_defs faithful_def
  by (auto simp: Let_def clean_snoc clean_snoc2 butlast_append raised_def exn_def missing_key_def
      split: sum.splits option.splits)

lemma propagates_hf_upload: "propagates L (cell_hf_upload L dir)"
  unfolding propagates_def cell_hf_upload_def stmt_defs faithful_def
  by (auto simp: Let_def clean_snoc clean_snoc2 butlast_append raised_def exn_def missing_key_def
      split: sum.splits option.splits)

lemma propagates_notebook: "propagates L (notebook L)"
  unfolding notebook_def cell_install_def cell_setup_def cell_data_def cell_take_def
    cell_load_model_def cell_fine_tune_def cell_save_def cell_listdir_def cell_load_local_def
    cell_load_parts_def cell_kaggle_auth_def cell_hf_auth_def cell_classifier_def Let_def
  by (intro propagates_intros propagates_kaggle_upload propagates_hf_upload)
    (simp_all add: raised_def)

lemma run_faithful: "faithful L (trace L env) (outcome L env)"
  using propagates_notebook[of L]
  unfolding propagates_def trace_def outcome_def run_def
  by (simp add: clean_Nil)

subsection \<open>The runs of the concrete libraries\<close>

lemma demo_run:
  "run demo_lib Map.empty =
     (\<lparr>environ = [''KERAS_BACKEND'' \<mapsto> ''jax''],
       calls = complete_calls Map.empty 6 demo_globals\<rparr>,
      Inr demo_globals)"
  unfolding run_def notebook_def cell_defs stmt_defs demo_lib_def complete_calls_def
    demo_globals_def
  by (simp add: Let_def fst_def[symmetric])

lemma demo_outcome: "outcome demo_lib Map.empty = Inr demo_globals"
  by (simp add: outcome_def demo_run)


lemma offline_run:
  "run offline_lib Map.empty =
     (\<lparr>environ = [''KERAS_BACKEND'' \<mapsto> ''jax''],
       calls = take 16 (complete_calls Map.empty 6 demo_globals)\<rparr>,
      Inl (Exception ''ConnectionError'' ''offline''))"
  unfolding run_def notebook_def cell_defs stmt_defs offline_lib_def demo_lib_def
    complete_calls_def demo_globals_def
  by (simp add: Let_def fst_def[symmetric])

lemma offline_trace: "trace offline_lib Map.empty = take 16 (complete_calls Map.empty 6 demo_globals)"
  by (simp add: trace_def offline_run)

lemma offline_outcome: "outcome offline_lib Map.empty = Inl (Exception ''ConnectionError'' ''offline'')"
  by (simp add: outcome_def offline_run)






subsection \<open>Every run is the beginning of a complete one\<close>

lemma grows_return: "grows (return_val a)"
  by (simp add: grows_def return_val_def)

lemma grows_raise: "grows (raise e)"
  by (simp add: grows_def raise_def)

lemma grows_extern: "grows (extern c r)"
  by (simp add: grows_def extern_def Let_def)

lemma grows_environ_set: "grows (environ_set k v)"
  by (simp add: grows_def environ_set_def)

lemma grows_not_in_environ: "grows (not_in_environ k)"
  by (simp add: grows_def not_in_environ_def)

lemma grows_subscript: "grows (subscript d k)"
  by (simp add: grows_def subscript_def raise_def return_val_def split: option.splits)

lemma grows_and_then:
  assumes "grows m" and "\<And>a. grows (f a)"
  shows "grows (and_then m f)"
  unfolding grows_def
proof
  fix s :: state
  obtain s1 r where ms: "m s = (s1, r)" by (cases "m s")
  from assms(1) ms have p1: "prefix (calls s) (calls s1)"
    unfolding grows_def by (metis fst_conv)
  show "prefix (calls s) (calls (fst (and_then m f s)))"
  proof (cases r)
    case (Inl e)
    with ms p1 show ?thesis by (simp add: and_then_def)
  next
    case (Inr a)
    from assms(2)[of a] have "prefix (calls s1) (calls (fst (f a s1)))"
      unfolding grows_def by blast
    with p1 ms Inr show ?thesis
      by (auto simp: and_then_def intro: prefix_order.trans)
  qed
qed

lemma grows_case_prod:
  assumes "\<And>a b. grows (f a b)"
  shows "grows (case p of (a, b) \<Rightarrow> f a b)"
  using assms by (cases p) simp

lemma grows_if:
  assumes "grows m" and "grows n"
  shows "grows (if b then m else n)"
  using assms by simp

lemmas grows_intros = grows_and_then grows_return grows_raise grows_extern grows_environ_set
  grows_not_in_environ grows_subscript grows_case_prod grows_if

lemma follows_return: "follows (return_val a) (return_val a)"
  by (simp add: follows_def return_val_def)

lemma follows_environ_set: "follows (environ_set k v) (environ_set k v)"
  by (simp add: follows_def environ_set_def)

lemma follows_not_in_environ: "follows (not_in_environ k) (not_in_environ k)"
  by (simp add: follows_def not_in_environ_def)

lemma follows_extern:
  assumes "\<And>h a. r h = Inr a \<Longrightarrow> r' h = Inr a"
  shows "follows (extern c r) (extern c r')"
  unfolding follows_def extern_def
  by (auto simp: Let_def assms split: sum.splits)

lemma follows_and_then:
  assumes "follows m m'" and "\<And>a. follows (f a) (f' a)" and "\<And>a. grows (f' a)"
  shows "follows (and_then m f) (and_then m' f')"
  unfolding follows_def
proof
  fix s :: state
  obtain s1 r where ms: "m s = (s1, r)" by (cases "m s")
  obtain s1' r' where ms': "m' s = (s1', r')" by (cases "m' s")
  show "case snd (and_then m f s) of
          Inr a \<Rightarrow> and_then m' f' s = and_then m f s
        | Inl e \<Rightarrow> prefix (calls (fst (and_then m f s))) (calls (fst (and_then m' f' s)))"
  proof (cases r)
    case (Inl e)
    with assms(1) ms ms' have p: "prefix (calls s1) (calls s1')"
      unfolding follows_def by (metis fst_conv snd_conv sum.simps(5))
    have "prefix (calls s1') (calls (fst (and_then m' f' s)))"
    proof (cases r')
      case (Inl e')
      with ms' show ?thesis by (simp add: and_then_def)
    next
      case (Inr a')
      from assms(3)[of a'] have "prefix (calls s1') (calls (fst (f' a' s1')))"
        unfolding grows_def by blast
      with ms' Inr show ?thesis by (simp add: and_then_def)
    qed
    with p have "prefix (calls s1) (calls (fst (and_then m' f' s)))"
      by (rule prefix_order.trans)
    with ms Inl show ?thesis by (simp add: and_then_def)
  next
    case (Inr a)
    with assms(1) ms have same: "m' s = (s1, Inr a)"
      unfolding follows_def by (metis snd_conv sum.simps(6))
    from assms(2)[of a] have "case snd (f a s1) of
          Inr b \<Rightarrow> f' a s1 = f a s1
        | Inl e \<Rightarrow> prefix (calls (fst (f a s1))) (calls (fst (f' a s1)))"
      unfolding follows_def by blast
    with ms Inr same show ?thesis by (auto simp: and_then_def split: sum.splits)
  qed
qed

lemma follows_case_prod:
  assumes "\<And>a b. follows (f a b) (f' a b)"
  shows "follows (case p of (a, b) \<Rightarrow> f a b) (case p of (a, b) \<Rightarrow> f' a b)"
  using assms by (cases p) simp

lemma follows_if:
  assumes "follows m m'" and "follows n n'"
  shows "follows (if b then m else n) (if b then m' else n')"
  using assms by simp

lemmas follows_intros = follows_and_then follows_return follows_extern follows_environ_set
  follows_not_in_environ follows_case_prod follows_if

lemma succeeds_return: "succeeds (return_val a)"
  by (simp add: succeeds_def return_val_def)

lemma succeeds_environ_set: "succeeds (environ_set k v)"
  by (simp add: succeeds_def environ_set_def)

lemma succeeds_not_in_environ: "succeeds (not_in_environ k)"
  by (simp add: succeeds_def not_in_environ_def)

lemma succeeds_extern:
  assumes "\<And>h. \<exists>a. r h = Inr a"
  shows "succeeds (extern c r)"
  unfolding succeeds_def extern_def using assms by (simp add: Let_def)

lemma succeeds_and_then:
  assumes "succeeds m" and "\<And>a. succeeds (f a)"
  shows "succeeds (and_then m f)"
  unfolding succeeds_def
proof
  fix s :: state
  obtain s1 r where ms: "m s = (s1, r)" by (cases "m s")
  with assms(1) obtain a where "r = Inr a"
    unfolding succeeds_def by (metis snd_conv)
  with ms assms(2)[of a] show "\<exists>b. snd (and_then m f s) = Inr b"
    unfolding succeeds_def by (simp add: and_then_def)
qed

lemma succeeds_case_prod:
  assumes "\<And>a b. succeeds (f a b)"
  shows "succeeds (case p of (a, b) \<Rightarrow> f a b)"
  using assms by (cases p) simp

lemma succeeds_if:
  assumes "succeeds m" and "succeeds n"
  shows "succeeds (if b then m else n)"
  using assms by simp

lemmas succeeds_intros = succeeds_and_then succeeds_return succeeds_extern succeeds_environ_set
  succeeds_not_in_environ succeeds_case_prod succeeds_if

text \<open>The two cells that subscript the answer of \<open>whoami\<close>.\<close>

lemma follows_kaggle_upload:
  "follows (cell_kaggle_upload L dir) (cell_kaggle_upload (never_failing L) dir)"
  unfolding follows_def cell_kaggle_upload_def stmt_defs
  by (auto simp: Let_def never_failing_def or_else_def with_key_def
      split: sum.splits option.splits)

lemma follows_hf_upload:
  "follows (cell_hf_upload L dir) (cell_hf_upload (never_failing L) dir)"
  unfolding follows_def cell_hf_upload_def stmt_defs
  by (auto simp: Let_def never_failing_def or_else_def with_key_def
      split: sum.splits option.splits)

lemma succeeds_kaggle_upload: "succeeds (cell_kaggle_upload (never_failing L) dir)"
  unfolding succeeds_def cell_kaggle_upload_def stmt_defs
  by (auto simp: Let_def never_failing_def or_else_def with_key_def
      split: sum.splits option.splits)

lemma succeeds_hf_upload: "succeeds (cell_hf_upload (never_failing L) dir)"
  unfolding succeeds_def cell_hf_upload_def stmt_defs
  by (auto simp: Let_def never_failing_def or_else_def with_key_def
      split: sum.splits option.splits)

lemma grows_kaggle_upload: "grows (cell_kaggle_upload L dir)"
  unfolding cell_kaggle_upload_def Let_def by (intro grows_intros)

lemma grows_hf_upload: "grows (cell_hf_upload L dir)"
  unfolding cell_hf_upload_def Let_def by (intro grows_intros)

lemma grows_notebook: "grows (notebook L)"
  unfolding notebook_def cell_defs Let_def
  by (intro grows_intros)

lemma succeeds_notebook: "succeeds (notebook (never_failing L))"
  unfolding notebook_def cell_install_def cell_setup_def cell_data_def cell_take_def
    cell_load_model_def cell_fine_tune_def cell_save_def cell_listdir_def cell_load_local_def
    cell_load_parts_def cell_kaggle_auth_def cell_hf_auth_def cell_classifier_def Let_def
  by (intro succeeds_intros succeeds_kaggle_upload succeeds_hf_upload)
    (simp_all add: never_failing_def or_else_def split: sum.splits)

lemma follows_notebook: "follows (notebook L) (notebook (never_failing L))"
  unfolding notebook_def cell_install_def cell_setup_def cell_data_def cell_take_def
    cell_load_model_def cell_fine_tune_def cell_save_def cell_listdir_def cell_load_local_def
    cell_load_parts_def cell_kaggle_auth_def cell_hf_auth_def cell_classifier_def Let_def
  by (intro follows_intros follows_kaggle_upload follows_hf_upload grows_intros
      grows_kaggle_upload grows_hf_upload)
    (simp_all add: never_failing_def or_else_def)


lemma every_run:
  obtains lm g train where
    "outcome (never_failing L) env = Inr g"
    "prefix (trace L env) (complete_calls env lm g)"
    "tfds_load (never_failing L) load_history = Inr (train, imdb_test g)"
    "from_preset (never_failing L) model_history = Inr lm"
    "imdb_train g = take 100 train"
    "imdb_train_reviews g = map fst (take 100 train)"
    "kaggle_uri g = ''kaggle://'' @ kaggle_username g @ ''/gpt2/keras/gpt2_imdb''"
    "hf_uri g = ''hf://'' @ hf_username g @ ''/gpt2_imdb''"
proof -
  define s0 where "s0 = \<lparr>environ = env, calls = []\<rparr>"
  from succeeds_notebook[of L] obtain g where
    g: "outcome (never_failing L) env = Inr g"
    unfolding succeeds_def outcome_def run_def by blast
  from complete_run[OF g] obtain train lm where
    tr: "trace (never_failing L) env = complete_calls env lm g" and
    ld: "tfds_load (never_failing L) (take 5 (trace (never_failing L) env)) =
           Inr (train, imdb_test g)" and
    fp: "from_preset (never_failing L) (take 6 (trace (never_failing L) env)) = Inr lm" and
    tk: "imdb_train g = take 100 train" and
    rv: "imdb_train_reviews g = map fst (take 100 train)" and
    ku: "kaggle_uri g = ''kaggle://'' @ kaggle_username g @ ''/gpt2/keras/gpt2_imdb''" and
    hu: "hf_uri g = ''hf://'' @ hf_username g @ ''/gpt2_imdb''"
    by blast
  have t5: "take 5 (complete_calls env lm g) = load_history"
    by (simp add: complete_calls_def load_history_def)
  have t6: "take 6 (complete_calls env lm g) = model_history"
    by (simp add: complete_calls_def load_history_def model_history_def)
  from follows_notebook[of L]
  have "case snd (notebook L s0) of
          Inr a \<Rightarrow> notebook (never_failing L) s0 = notebook L s0
        | Inl e \<Rightarrow> prefix (calls (fst (notebook L s0)))
                    (calls (fst (notebook (never_failing L) s0)))"
    unfolding follows_def by blast
  then have "prefix (trace L env) (trace (never_failing L) env)"
    unfolding trace_def run_def s0_def by (auto split: sum.splits)
  with tr have pre: "prefix (trace L env) (complete_calls env lm g)"
    by simp
  from ld fp show ?thesis
    unfolding tr t5 t6 using that g pre tk rv ku hu by blast
qed

subsection \<open>Projections of the beginning of a history\<close>

lemma fits_append: "fits (a @ b) = fits a @ fits b"
  by (induction a rule: fits.induct) simp_all

lemma uploads_append: "uploads (a @ b) = uploads a @ uploads b"
  by (induction a rule: uploads.induct) simp_all


lemma prefix_fits: "prefix a b \<Longrightarrow> prefix (fits a) (fits b)"
  by (auto simp: prefix_def fits_append)

lemma prefix_uploads: "prefix a b \<Longrightarrow> prefix (uploads a) (uploads b)"
  by (auto simp: prefix_def uploads_append)






section \<open>The claims\<close>

subsection \<open>C1: the order of the operations\<close>




subsection \<open>C2: the training data is a truncated labeled sample\<close>




subsection \<open>C3: interactive login exactly when the credentials are incomplete\<close>



subsection \<open>C4: one URI scheme per hub\<close>

text \<open>
  C4: the uploads of any run are, in this order and as far as the run gets, the notebook's
  upload to Kaggle, its upload to Hugging Face and the classifier's upload to Kaggle, and
  their URIs start with \<open>kaggle://\<close>, \<open>hf://\<close> and \<open>kaggle://\<close>. In a run that reaches the end
  they are given \<open>kaggle_uri\<close>, \<open>hf_uri\<close> and the classifier's Kaggle URI; the Kaggle URIs do
  not start with \<open>hf://\<close> and the Hugging Face URI does not start with \<open>kaggle://\<close>.
\<close>

theorem upload_uri_schemes:
  "prefix (map (uri_hub \<circ> fst) (uploads (trace L env)))
     [Some Kaggle, Some HuggingFace, Some Kaggle] \<and>
   (outcome L env = Inr g \<longrightarrow>
      map fst (uploads (trace L env)) =
        [kaggle_uri g, hf_uri g,
         ''kaggle://'' @ kaggle_username g @ ''/bert/keras/bert_tiny_imdb''] \<and>
      map (uri_hub \<circ> fst) (uploads (trace L env)) =
        [Some Kaggle, Some HuggingFace, Some Kaggle] \<and>
      prefix ''kaggle://'' (kaggle_uri g) \<and> \<not> prefix ''hf://'' (kaggle_uri g) \<and>
      prefix ''hf://'' (hf_uri g) \<and> \<not> prefix ''kaggle://'' (hf_uri g))"
proof (intro conjI impI)
  obtain lm g' where
    pre: "prefix (trace L env) (complete_calls env lm g')" and
    ku': "kaggle_uri g' = ''kaggle://'' @ kaggle_username g' @ ''/gpt2/keras/gpt2_imdb''" and
    hu': "hf_uri g' = ''hf://'' @ hf_username g' @ ''/gpt2_imdb''"
    by (rule every_run)
  from prefix_uploads[OF pre]
  have "prefix (map (uri_hub \<circ> fst) (uploads (trace L env)))
          (map (uri_hub \<circ> fst) (uploads (complete_calls env lm g')))"
    by (rule map_mono_prefix)
  then show "prefix (map (uri_hub \<circ> fst) (uploads (trace L env)))
     [Some Kaggle, Some HuggingFace, Some Kaggle]"
    by (simp add: uploads_complete_calls ku' hu' uri_hub_def)
  assume g: "outcome L env = Inr g"
  from complete_run[OF g] obtain lm' where
    tr: "trace L env = complete_calls env lm' g" and
    ku: "kaggle_uri g = ''kaggle://'' @ kaggle_username g @ ''/gpt2/keras/gpt2_imdb''" and
    hu: "hf_uri g = ''hf://'' @ hf_username g @ ''/gpt2_imdb''"
    by blast
  show "map fst (uploads (trace L env)) =
        [kaggle_uri g, hf_uri g,
         ''kaggle://'' @ kaggle_username g @ ''/bert/keras/bert_tiny_imdb'']"
    unfolding tr uploads_complete_calls by simp
  show "map (uri_hub \<circ> fst) (uploads (trace L env)) =
        [Some Kaggle, Some HuggingFace, Some Kaggle]"
    unfolding tr uploads_complete_calls by (simp add: ku hu uri_hub_def)
  show "prefix ''kaggle://'' (kaggle_uri g)" "\<not> prefix ''hf://'' (kaggle_uri g)"
    by (simp_all add: ku)
  show "prefix ''hf://'' (hf_uri g)" "\<not> prefix ''kaggle://'' (hf_uri g)"
    by (simp_all add: hu)
qed

theorem upload_uri_schemes_witness:
  "outcome demo_lib Map.empty = Inr demo_globals \<and>
   map fst (uploads (trace demo_lib Map.empty)) =
     [''kaggle://alice/gpt2/keras/gpt2_imdb'', ''hf://bob/gpt2_imdb'',
      ''kaggle://alice/bert/keras/bert_tiny_imdb'']"
  using upload_uri_schemes[of demo_lib Map.empty demo_globals] demo_outcome
  by (simp add: demo_globals_def)

subsection \<open>C5: where an upload goes and what it uploads\<close>



subsection \<open>C6: which hubs a run authenticates against\<close>




subsection \<open>C7: exceptions are not handled\<close>

text \<open>
  C7: in every run, whatever the libraries answer, no call is made after a call that raised,
  and the calls made are the beginning of the calls of a complete run: nothing else is
  called on failure. If the library answered the last call of the run with an exception,
  the run ends with that very exception; a run that ends with an exception ends with the
  one the library answered its last call with, or, when that call was a \<open>whoami\<close> that
  returned, with the KeyError of the subscript on its result; and in a run that reaches the
  end no call raised.
\<close>

theorem library_errors_propagate:
  "clean L (butlast (trace L env)) \<and>
   (\<exists>lm g'. prefix (trace L env) (complete_calls env lm g')) \<and>
   (raised L (trace L env) = Some e \<longrightarrow> outcome L env = Inl e) \<and>
   (outcome L env = Inl e \<longrightarrow>
      raised L (trace L env) = Some e \<or>
      raised L (trace L env) = None \<and> missing_key L (trace L env) e) \<and>
   (outcome L env = Inr g \<longrightarrow> clean L (trace L env))"
proof -
  obtain lm g' where "prefix (trace L env) (complete_calls env lm g')"
    by (rule every_run)
  then have pre: "\<exists>lm g'. prefix (trace L env) (complete_calls env lm g')"
    by blast
  show ?thesis
  proof (cases "outcome L env")
    case (Inl e')
    with run_faithful[of L env] pre show ?thesis
      by (auto simp: faithful_def)
  next
    case (Inr g'')
    with run_faithful[of L env] have "clean L (trace L env)"
      by (simp add: faithful_def)
    with Inr pre show ?thesis
      by (auto dest: clean_last clean_butlast)
  qed
qed

theorem library_errors_propagate_witness:
  "raised offline_lib (trace offline_lib Map.empty) = Some (Exception ''ConnectionError'' ''offline'') \<and>
   outcome offline_lib Map.empty = Inl (Exception ''ConnectionError'' ''offline'') \<and>
   last (trace offline_lib Map.empty) =
     UploadPreset ''kaggle://alice/gpt2/keras/gpt2_imdb'' ''./gpt2_imdb'' \<and>
   outcome demo_lib Map.empty = Inr demo_globals \<and>
   clean demo_lib (trace demo_lib Map.empty)"
proof -
  have r: "raised offline_lib (trace offline_lib Map.empty) =
             Some (Exception ''ConnectionError'' ''offline'')"
    unfolding offline_trace
    by (simp add: complete_calls_def demo_globals_def raised_def exn_def offline_lib_def)
  have l: "last (trace offline_lib Map.empty) =
             UploadPreset ''kaggle://alice/gpt2/keras/gpt2_imdb'' ''./gpt2_imdb''"
    by (simp add: offline_trace complete_calls_def demo_globals_def)
  from r library_errors_propagate[of offline_lib Map.empty "Exception ''ConnectionError'' ''offline''"]
  have o: "outcome offline_lib Map.empty = Inl (Exception ''ConnectionError'' ''offline'')"
    by blast
  from demo_outcome library_errors_propagate[of demo_lib Map.empty _ demo_globals]
  have c: "clean demo_lib (trace demo_lib Map.empty)"
    by blast
  from r l o c demo_outcome show ?thesis by blast
qed

subsection \<open>C10: what each fit is given\<close>

text \<open>
  C10: with \<open>train\<close> the training split that the load returned and \<open>lm\<close> the model that
  \<open>CausalLM.from_preset("gpt2_base_en")\<close> returned, the \<open>fit\<close> calls of any run are, in this
  order and as far as the run gets: one on \<open>lm\<close>, given the texts alone (the first component
  of every element of the truncated training set), and one on another model, given the
  elements of the same truncated training set, labels included. In a run that reaches the
  end both are made, and the second model is the one that \<open>Classifier.from_preset\<close> returned.
\<close>

theorem fit_inputs_by_task:
  "(tfds_load L load_history = Inr (train, test) \<and> from_preset L model_history = Inr lm \<longrightarrow>
      (\<exists>clf. prefix (fits (trace L env))
         [(lm, Texts (map fst (take 100 train))), (clf, Labeled (take 100 train))])) \<and>
   (outcome L env = Inr g \<longrightarrow>
      (\<exists>train test lm.
         tfds_load L load_history = Inr (train, test) \<and>
         from_preset L model_history = Inr lm \<and>
         from_preset L (history_upto (FromPreset Classifier ''bert_tiny_en_uncased'' (Some 2))
                          (trace L env)) = Inr (classifier g) \<and>
         fits (trace L env) =
           [(lm, Texts (map fst (take 100 train))), (classifier g, Labeled (take 100 train))]))"
proof (intro conjI impI)
  assume "tfds_load L load_history = Inr (train, test) \<and> from_preset L model_history = Inr lm"
  then have ld: "tfds_load L load_history = Inr (train, test)"
    and fp: "from_preset L model_history = Inr lm"
    by simp_all
  obtain lm' g' train' where
    pre: "prefix (trace L env) (complete_calls env lm' g')" and
    ld': "tfds_load (never_failing L) load_history = Inr (train', imdb_test g')" and
    fp': "from_preset (never_failing L) model_history = Inr lm'" and
    tk': "imdb_train g' = take 100 train'" and
    rv': "imdb_train_reviews g' = map fst (take 100 train')"
    by (rule every_run)
  from ld ld' have "train' = train"
    by (simp add: never_failing_def or_else_def)
  moreover from fp fp' have "lm' = lm"
    by (simp add: never_failing_def or_else_def)
  ultimately show "\<exists>clf. prefix (fits (trace L env))
         [(lm, Texts (map fst (take 100 train))), (clf, Labeled (take 100 train))]"
    using prefix_fits[OF pre] tk' rv' by (auto simp: fits_complete_calls)
next
  assume g: "outcome L env = Inr g"
  from complete_run[OF g] obtain train lm where
    tr: "trace L env = complete_calls env lm g" and
    ld: "tfds_load L (take 5 (trace L env)) = Inr (train, imdb_test g)" and
    fp: "from_preset L (take 6 (trace L env)) = Inr lm" and
    fc: "from_preset L (history_upto (FromPreset Classifier ''bert_tiny_en_uncased'' (Some 2))
                          (trace L env)) = Inr (classifier g)" and
    tk: "imdb_train g = take 100 train" and
    rv: "imdb_train_reviews g = map fst (take 100 train)"
    by blast
  have t5: "take 5 (complete_calls env lm g) = load_history"
    by (simp add: complete_calls_def load_history_def)
  have t6: "take 6 (complete_calls env lm g) = model_history"
    by (simp add: complete_calls_def load_history_def model_history_def)
  from ld fp fc tk rv
  show "\<exists>train test lm.
         tfds_load L load_history = Inr (train, test) \<and>
         from_preset L model_history = Inr lm \<and>
         from_preset L (history_upto (FromPreset Classifier ''bert_tiny_en_uncased'' (Some 2))
                          (trace L env)) = Inr (classifier g) \<and>
         fits (trace L env) =
           [(lm, Texts (map fst (take 100 train))), (classifier g, Labeled (take 100 train))]"
    unfolding tr t5 t6
    by (intro exI[of _ train] exI[of _ "imdb_test g"] exI[of _ lm])
      (simp add: fits_complete_calls)
qed

theorem fit_inputs_by_task_witness:
  "outcome demo_lib Map.empty = Inr demo_globals \<and>
   tfds_load demo_lib load_history = Inr (replicate 120 demo_batch, replicate 3 demo_batch) \<and>
   from_preset demo_lib model_history = Inr 6 \<and>
   fits (trace demo_lib Map.empty) =
     [(6, Texts (replicate 100 (fst demo_batch))), (21, Labeled (replicate 100 demo_batch))]"
proof -
  have ld: "tfds_load demo_lib load_history =
              Inr (replicate 120 demo_batch, replicate 3 demo_batch)"
    by (simp add: demo_lib_def)
  have fp: "from_preset demo_lib model_history = Inr 6"
    by (simp add: demo_lib_def model_history_def load_history_def)
  from fit_inputs_by_task[where L = demo_lib and env = Map.empty and g = demo_globals
      and train = "replicate 120 demo_batch" and test = "replicate 3 demo_batch" and lm = 6]
    demo_outcome
  obtain train test lm where
    "tfds_load demo_lib load_history = Inr (train, test)" and
    "from_preset demo_lib model_history = Inr lm" and
    "fits (trace demo_lib Map.empty) =
       [(lm, Texts (map fst (take 100 train))),
        (classifier demo_globals, Labeled (take 100 train))]"
    by blast
  with ld fp demo_outcome show ?thesis
    by (auto simp: demo_globals_def)
qed

end
